theory Spec2Isabelle
  imports Complex_Main "HOL-Library.Finite_Map" "HOL-Library.Log_Nat"
begin

section \<open>JavaScript values\<close>

text \<open>
  The values that cross the API of \<^verbatim>\<open>index.js\<close>: item keys, amounts, indices and the
  per-stack \<^verbatim>\<open>data\<close> payload.  Numbers are exact rationals plus the three
  non-finite doubles; an object is a finite map from property names to values, so that two
  objects with the same properties in a different order are the same value.
\<close>

datatype jsval =
    JUndefined
  | JNull
  | JBoolean bool
  | JNumber rat
  | JNaN
  | JInfinity
  | JNegInfinity
  | JString string
  | JArray "jsval list"
  | JObject "(string, jsval) fmap"

text \<open>\<^verbatim>\<open>typeof v === "string"\<close>, and the characters of a string value.\<close>

definition typeof_string :: "jsval \<Rightarrow> bool" where
  "typeof_string v = (case v of JString _ \<Rightarrow> True | _ \<Rightarrow> False)"

definition str_of :: "jsval \<Rightarrow> string" where
  "str_of v = (case v of JString s \<Rightarrow> s | _ \<Rightarrow> [])"

text \<open>\<^verbatim>\<open>Number.isInteger(v)\<close>: false for every non-number, for NaN, for the infinities
  and for a number with a fractional part.\<close>

definition Number_isInteger :: "jsval \<Rightarrow> bool" where
  "Number_isInteger v = (case v of JNumber q \<Rightarrow> of_int \<lfloor>q\<rfloor> = q | _ \<Rightarrow> False)"

text \<open>The integer a value denotes once \<open>Number_isInteger\<close> has accepted it.\<close>

definition int_of :: "jsval \<Rightarrow> int" where
  "int_of v = (case v of JNumber q \<Rightarrow> \<lfloor>q\<rfloor> | _ \<Rightarrow> 0)"

text \<open>
  Modelled from the spec: \<^verbatim>\<open>lodash.isequal\<close> is an external dependency whose code is
  not part of the repository.  The spec's equality policy is deep structural equality of
  \<^verbatim>\<open>data\<close>, "where undefined/absent data on both sides counts as equal"; on \<open>jsval\<close>
  that is equality of values.
\<close>

definition isEqual :: "jsval \<Rightarrow> jsval \<Rightarrow> bool" where
  "isEqual a b = (a = b)"


section \<open>Arithmetic on amounts\<close>

text \<open>
  An amount is an integer-valued double: \<^verbatim>\<open>giveItem\<close> and \<^verbatim>\<open>removeItem\<close> accept
  integers only, and the stacks that a caller hands to \<^verbatim>\<open>setInventory\<close> are taken to
  hold integers too.  \<^verbatim>\<open>+\<close> and \<^verbatim>\<open>-\<close> on doubles return the exact result rounded
  to 53 significant bits, ties to the even significand: exact up to \<open>2^53\<close> in absolute
  value, rounded beyond (\<open>2^53 + 1\<close> is \<open>2^53\<close>).  The type has no infinity: sums
  stay below \<open>2^1024\<close>.
\<close>

definition double_round :: "int \<Rightarrow> int" where
  "double_round n =
     (if \<bar>n\<bar> \<le> 2 ^ 53 then n
      else
        let e = nat (bitlen \<bar>n\<bar>) - 53;
            q = \<bar>n\<bar> div 2 ^ e;
            r = \<bar>n\<bar> mod 2 ^ e;
            h = 2 ^ (e - 1)
        in sgn n * ((if h < r \<or> (r = h \<and> odd q) then q + 1 else q) * 2 ^ e))"

definition js_add :: "int \<Rightarrow> int \<Rightarrow> int" where
  "js_add a b = double_round (a + b)"

definition js_sub :: "int \<Rightarrow> int \<Rightarrow> int" where
  "js_sub a b = double_round (a - b)"


section \<open>Stacks, events, players\<close>

text \<open>One stack object \<^verbatim>\<open>{ key, amount, data }\<close>.\<close>

record stack =
  key :: string
  amount :: int
  data :: jsval

text \<open>
  Stack objects live in a store and arrays hold references to them: \<^verbatim>\<open>setInventory\<close>
  installs the caller's objects as they are, and \<^verbatim>\<open>giveItem\<close> and \<^verbatim>\<open>removeItem\<close>
  change an object in place, so one object standing at two indices changes at both.  An
  array is the list of the references it holds when it is handed over, read or reported
  in an event.
\<close>

type_synonym ref = nat

type_synonym actor = nat

text \<open>The events of \<^verbatim>\<open>inventoryScript.emit\<close>, with their payloads in the order of the
  source.  The player object \<^verbatim>\<open>this\<close> is carried as its identity, an array as the
  references it holds.  Emitting appends the event to a log: the listeners observe, they
  change neither player nor registry.\<close>

datatype event =
    ItemDefined string string string
  | InventoryReplaced actor (oldInventory: "ref list") (newInventory: "ref list")
  | ItemAdded actor string int jsval
  | ItemUsed actor int string jsval
  | ItemRemoved actor int string int jsval
  | ItemRemovedCompletely actor string jsval

text \<open>
  What a player operation reads and writes: the player object (its identity and its
  \<^verbatim>\<open>_inventory\<close> array), the store of stack objects, and the events emitted so far,
  oldest first.  The objects created so far are those at the references below
  \<open>allocated\<close>; a new object takes the reference \<open>allocated\<close>.
\<close>

record world =
  actor :: actor
  heap :: "ref \<Rightarrow> stack"
  allocated :: nat
  inventory :: "ref list"
  emitted :: "event list"


text \<open>The caller writes an object literal: a new object enters the store.\<close>

definition newObject :: "world \<Rightarrow> stack \<Rightarrow> world" where
  "newObject s st = s\<lparr>heap := (heap s)(allocated s := st), allocated := Suc (allocated s)\<rparr>"


section \<open>The item registry (class InventoryScript)\<close>

text \<open>
  An item definition.  A hook field is \<open>Some f\<close> when the stored value is a function and
  \<open>None\<close> when it is \<^verbatim>\<open>undefined\<close>.  An \<^verbatim>\<open>onUse\<close> hook receives the player, the
  index, the key and the data, and may change the player's inventory, the stack objects
  and the event log; it returns, and registers no item.
\<close>

type_synonym hook = "world \<Rightarrow> int \<Rightarrow> string \<Rightarrow> jsval \<Rightarrow> world"

record item =
  name :: string
  description :: string
  onUse :: "hook option"
  nameFunc :: "(jsval \<Rightarrow> string) option"
  descFunc :: "(jsval \<Rightarrow> string) option"

text \<open>
  \<^verbatim>\<open>this._items\<close> is a plain object used as a dictionary: \<open>own\<close> are its own
  properties.  Assigning to the property \<^verbatim>\<open>__proto__\<close> creates no own property: it
  replaces the prototype of \<^verbatim>\<open>_items\<close>, which \<open>proto\<close> records (\<open>None\<close> is
  \<^verbatim>\<open>Object.prototype\<close>).
\<close>

record registry =
  own :: "string \<rightharpoonup> item"
  proto :: "item option"

datatype error = TypeError

text \<open>
  \<^verbatim>\<open>this._items.hasOwnProperty(key)\<close> looks the method up on \<^verbatim>\<open>_items\<close> itself.  Once
  a definition is stored under the key \<^verbatim>\<open>hasOwnProperty\<close> the lookup finds that
  definition, which is no function, and the call throws.
\<close>

definition hasItem :: "registry \<Rightarrow> string \<Rightarrow> error + bool" where
  "hasItem r k =
     (if own r ''hasOwnProperty'' \<noteq> None then Inl TypeError else Inr (own r k \<noteq> None))"

text \<open>
  \<^verbatim>\<open>this._items[key]\<close>: the own property, else what the prototype chain gives.  \<open>None\<close>
  stands for \<^verbatim>\<open>undefined\<close> and for the inherited values that have no \<^verbatim>\<open>onUse\<close>
  function (the members of \<^verbatim>\<open>Object.prototype\<close>; the strings and functions that are
  the fields of a definition installed as prototype); \<^verbatim>\<open>_items["__proto__"]\<close> is the
  prototype itself.
\<close>

definition getItem :: "registry \<Rightarrow> string \<Rightarrow> item option" where
  "getItem r k =
     (case own r k of
        Some d \<Rightarrow> Some d
      | None \<Rightarrow> if k = ''__proto__'' then proto r else None)"

text \<open>\<^verbatim>\<open>this._items[key] = d\<close>.\<close>

definition store_item :: "registry \<Rightarrow> string \<Rightarrow> item \<Rightarrow> registry" where
  "store_item r k d =
     (if k = ''__proto__'' \<and> own r k = None then r\<lparr>proto := Some d\<rparr>
      else r\<lparr>own := (own r)(k \<mapsto> d)\<rparr>)"

text \<open>\<^verbatim>\<open>addItem\<close> returns the stored definition, or \<open>None\<close> for \<^verbatim>\<open>null\<close>, together with
  the registry and the event log after the call.  The four rejections are tested in the
  order of the source; the fourth calls \<^verbatim>\<open>hasOwnProperty\<close>.\<close>

definition addItem ::
  "registry \<Rightarrow> event list \<Rightarrow> jsval \<Rightarrow> jsval \<Rightarrow> jsval \<Rightarrow>
     hook option \<Rightarrow> (jsval \<Rightarrow> string) option \<Rightarrow> (jsval \<Rightarrow> string) option \<Rightarrow>
     error + (item option \<times> registry \<times> event list)" where
  "addItem r evs k nm ds use nf df =
     (if \<not> typeof_string k \<or> length (str_of k) < 1 then Inr (None, r, evs)
      else if \<not> typeof_string nm \<or> length (str_of nm) < 1 then Inr (None, r, evs)
      else if \<not> typeof_string ds then Inr (None, r, evs)
      else
        (case hasItem r (str_of k) of
           Inl e \<Rightarrow> Inl e
         | Inr True \<Rightarrow> Inr (None, r, evs)
         | Inr False \<Rightarrow>
             (let d = \<lparr>name = str_of nm, description = str_of ds,
                       onUse = use, nameFunc = nf, descFunc = df\<rparr>
              in Inr (Some d, store_item r (str_of k) d,
                      evs @ [ItemDefined (str_of k) (str_of nm) (str_of ds)]))))"

definition getItemName :: "registry \<Rightarrow> string \<Rightarrow> jsval \<Rightarrow> error + string" where
  "getItemName r k dat =
     (case hasItem r k of
        Inl e \<Rightarrow> Inl e
      | Inr True \<Rightarrow>
          (case own r k of
             Some d \<Rightarrow> Inr (case nameFunc d of Some f \<Rightarrow> f dat | None \<Rightarrow> name d)
           | None \<Rightarrow> Inr ''Invalid Item'')
      | Inr False \<Rightarrow> Inr ''Invalid Item'')"

definition getItemDescription :: "registry \<Rightarrow> string \<Rightarrow> jsval \<Rightarrow> error + string" where
  "getItemDescription r k dat =
     (case hasItem r k of
        Inl e \<Rightarrow> Inl e
      | Inr True \<Rightarrow>
          (case own r k of
             Some d \<Rightarrow> Inr (case descFunc d of Some f \<Rightarrow> f dat | None \<Rightarrow> description d)
           | None \<Rightarrow> Inr [])
      | Inr False \<Rightarrow> Inr [])"


section \<open>Array helpers\<close>

text \<open>\<^verbatim>\<open>Array.prototype.findIndex\<close>: the first index whose element satisfies the
  predicate, \<open>-1\<close> when there is none.\<close>

fun findIndex_from :: "('a \<Rightarrow> bool) \<Rightarrow> 'a list \<Rightarrow> int \<Rightarrow> int" where
  "findIndex_from P [] i = -1"
| "findIndex_from P (x # xs) i = (if P x then i else findIndex_from P xs (i + 1))"

definition findIndex :: "('a \<Rightarrow> bool) \<Rightarrow> 'a list \<Rightarrow> int" where
  "findIndex P xs = findIndex_from P xs 0"

text \<open>\<^verbatim>\<open>arr[i]\<close> for an integer \<open>i\<close>: \<open>None\<close> is \<^verbatim>\<open>undefined\<close>, which a negative index
  and an index past the end give.  A stack object is truthy, \<^verbatim>\<open>undefined\<close> is not.\<close>

definition at_index :: "'a list \<Rightarrow> int \<Rightarrow> 'a option" where
  "at_index xs i = (if 0 \<le> i \<and> nat i < length xs then Some (xs ! nat i) else None)"

text \<open>\<^verbatim>\<open>arr.splice(i, 1)\<close> at an index inside the array.\<close>

definition splice1 :: "'a list \<Rightarrow> nat \<Rightarrow> 'a list" where
  "splice1 xs i = take i xs @ drop (Suc i) xs"


section \<open>Player functions\<close>

definition getInventory :: "world \<Rightarrow> ref list" where
  "getInventory s = inventory s"

text \<open>The argument of \<^verbatim>\<open>setInventory\<close>: an array of stack objects, or a value for which
  \<^verbatim>\<open>Array.isArray\<close> is false.\<close>

datatype inventory_arg = AnArray "ref list" | NotAnArray jsval

definition setInventory :: "world \<Rightarrow> inventory_arg \<Rightarrow> bool \<times> world" where
  "setInventory s arg =
     (case arg of
        AnArray newInv \<Rightarrow>
          (let oldInv = inventory s
           in (True, s\<lparr>inventory := newInv,
                       emitted := emitted s @ [InventoryReplaced (actor s) oldInv newInv]\<rparr>))
      | NotAnArray _ \<Rightarrow> (False, s))"

definition player_hasItem :: "world \<Rightarrow> string \<Rightarrow> bool" where
  "player_hasItem s itemKey =
     (findIndex (\<lambda>i. key (heap s i) = itemKey) (inventory s) \<noteq> -1)"

definition hasItemWithData :: "world \<Rightarrow> string \<Rightarrow> jsval \<Rightarrow> bool" where
  "hasItemWithData s itemKey dat =
     (findIndex (\<lambda>i. key (heap s i) = itemKey \<and> isEqual (data (heap s i)) dat) (inventory s)
        \<noteq> -1)"

definition getItemIndex :: "world \<Rightarrow> string \<Rightarrow> int" where
  "getItemIndex s itemKey = findIndex (\<lambda>i. key (heap s i) = itemKey) (inventory s)"

definition getItemIndexWithData :: "world \<Rightarrow> string \<Rightarrow> jsval \<Rightarrow> int" where
  "getItemIndexWithData s itemKey dat =
     findIndex (\<lambda>i. key (heap s i) = itemKey \<and> isEqual (data (heap s i)) dat) (inventory s)"

definition getItemAmount :: "world \<Rightarrow> string \<Rightarrow> int" where
  "getItemAmount s itemKey =
     foldl (\<lambda>total it. js_add total (if key (heap s it) = itemKey then amount (heap s it) else 0))
       0 (inventory s)"

definition getItemAmountWithData :: "world \<Rightarrow> string \<Rightarrow> jsval \<Rightarrow> int" where
  "getItemAmountWithData s itemKey dat =
     foldl (\<lambda>total it. js_add total
              (if key (heap s it) = itemKey \<and> isEqual (data (heap s it)) dat
               then amount (heap s it) else 0))
       0 (inventory s)"

definition getTotalItemAmount :: "world \<Rightarrow> int" where
  "getTotalItemAmount s = foldl (\<lambda>total it. js_add total (amount (heap s it))) 0 (inventory s)"

text \<open>\<^verbatim>\<open>giveItem\<close>: the registry is read, never written.  \<^verbatim>\<open>hasItem\<close> is called
  first, so where it throws \<^verbatim>\<open>giveItem\<close> throws whatever the amount.\<close>

definition giveItem ::
  "registry \<Rightarrow> world \<Rightarrow> string \<Rightarrow> jsval \<Rightarrow> jsval \<Rightarrow> error + (bool \<times> world)" where
  "giveItem r s itemKey amt dat =
     (case hasItem r itemKey of
        Inl e \<Rightarrow> Inl e
      | Inr registered \<Rightarrow>
          if registered \<and> Number_isInteger amt \<and> 0 < int_of amt then
            let itemIdx = getItemIndexWithData s itemKey dat;
                s1 = (if itemIdx \<noteq> -1
                      then let it = inventory s ! nat itemIdx
                           in s\<lparr>heap := (heap s)
                                  (it := (heap s it)\<lparr>amount := js_add (amount (heap s it)) (int_of amt)\<rparr>)\<rparr>
                      else s\<lparr>heap := (heap s)
                                (allocated s := \<lparr>key = itemKey, amount = int_of amt, data = dat\<rparr>),
                             allocated := Suc (allocated s),
                             inventory := inventory s @ [allocated s]\<rparr>)
            in Inr (True, s1\<lparr>emitted := emitted s @ [ItemAdded (actor s) itemKey (int_of amt) dat]\<rparr>)
          else Inr (False, s))"

text \<open>\<^verbatim>\<open>useItem\<close>: the hook, when the definition has one, is called with the key and
  data the stack holds then; the event is emitted after the hook has run and carries the
  key and data the same stack object holds by then.\<close>

definition useItem :: "registry \<Rightarrow> world \<Rightarrow> jsval \<Rightarrow> bool \<times> world" where
  "useItem r s itemIdx =
     (if Number_isInteger itemIdx then
        (case at_index (inventory s) (int_of itemIdx) of
           Some it \<Rightarrow>
             (let s1 = (case getItem r (key (heap s it)) of
                          Some itemDef \<Rightarrow>
                            (case onUse itemDef of
                               Some f \<Rightarrow> f s (int_of itemIdx) (key (heap s it)) (data (heap s it))
                             | None \<Rightarrow> s)
                        | None \<Rightarrow> s)
              in (True, s1\<lparr>emitted := emitted s1 @
                             [ItemUsed (actor s) (int_of itemIdx)
                                (key (heap s1 it)) (data (heap s1 it))]\<rparr>))
         | None \<Rightarrow> (False, s))
      else (False, s))"

text \<open>\<^verbatim>\<open>removeItem(itemIdx, amount = 1)\<close>: an \<^verbatim>\<open>undefined\<close> amount takes the default.
  The object is decremented in place, whether or not it is then spliced out.\<close>

definition removeItem :: "world \<Rightarrow> jsval \<Rightarrow> jsval \<Rightarrow> bool \<times> world" where
  "removeItem s itemIdx amt0 =
     (let amt = (if amt0 = JUndefined then JNumber 1 else amt0) in
      if Number_isInteger itemIdx \<and> at_index (inventory s) (int_of itemIdx) \<noteq> None
         \<and> Number_isInteger amt \<and> 0 < int_of amt then
        let i = nat (int_of itemIdx);
            it = inventory s ! i;
            h1 = (heap s)(it := (heap s it)\<lparr>amount := js_sub (amount (heap s it)) (int_of amt)\<rparr>);
            ev1 = emitted s @
                    [ItemRemoved (actor s) (int_of itemIdx) (key (h1 it)) (int_of amt) (data (h1 it))]
        in if amount (h1 (inventory s ! i)) < 1
           then (True, s\<lparr>heap := h1, inventory := splice1 (inventory s) i,
                         emitted := ev1 @ [ItemRemovedCompletely (actor s) (key (h1 it)) (data (h1 it))]\<rparr>)
           else (True, s\<lparr>heap := h1, emitted := ev1\<rparr>)
      else (False, s))"


section \<open>Sequences of operations\<close>

text \<open>The four public operations, and the caller creating a stack object to hand to
  \<^verbatim>\<open>setInventory\<close>.  An operation that throws leaves the player as it was.\<close>

datatype operation =
    NewObject stack
  | Give string jsval jsval
  | UseAt jsval
  | RemoveAt jsval jsval
  | ReplaceInventory inventory_arg

fun perform :: "registry \<Rightarrow> world \<Rightarrow> operation \<Rightarrow> world" where
  "perform r s (NewObject st) = newObject s st"
| "perform r s (Give k amt dat) =
     (case giveItem r s k amt dat of Inl e \<Rightarrow> s | Inr res \<Rightarrow> snd res)"
| "perform r s (UseAt i) = snd (useItem r s i)"
| "perform r s (RemoveAt i amt) = snd (removeItem s i amt)"
| "perform r s (ReplaceInventory arg) = snd (setInventory s arg)"



text \<open>The stacks of an array are distinct objects, created earlier.\<close>

definition distinct_objects :: "world \<Rightarrow> ref list \<Rightarrow> bool" where
  "distinct_objects s arr = (distinct arr \<and> list_all (\<lambda>it. it < allocated s) arr)"



text \<open>
  Whether \<open>useItem\<close> runs no hook for a key: \<open>getItem\<close> finds no definition, or the
  definition it finds has no \<open>onUse\<close> function.
\<close>

definition no_hook :: "registry \<Rightarrow> string \<Rightarrow> bool" where
  "no_hook r k = (case getItem r k of Some itemDef \<Rightarrow> onUse itemDef = None | None \<Rightarrow> True)"




section \<open>The invariant of the operations\<close>



section \<open>Example registries, players and runs\<close>

text \<open>
  Three definitions: without hooks, with a \<^verbatim>\<open>nameFunc\<close>, and the one that the examples
  store under the keys \<^verbatim>\<open>hasOwnProperty\<close> and \<^verbatim>\<open>__proto__\<close>.
\<close>

definition medkit :: item where
  "medkit = \<lparr>name = ''Medkit'', description = ''Heals 10 HP'',
              onUse = None, nameFunc = None, descFunc = None\<rparr>"

definition sword :: item where
  "sword = \<lparr>name = ''Sword'', description = ''A blade'', onUse = None,
             nameFunc = Some (\<lambda>dat. ''Sword of '' @ str_of dat), descFunc = None\<rparr>"

definition trap :: item where
  "trap = \<lparr>name = ''Trap'', description = '''',
            onUse = None, nameFunc = None, descFunc = None\<rparr>"

text \<open>
  The registry of a new \<^verbatim>\<open>InventoryScript\<close>, and the registries after one \<open>addItem\<close>:
  of \<^verbatim>\<open>item_medkit\<close>, of \<^verbatim>\<open>item_sword\<close>, and of \<^verbatim>\<open>hasOwnProperty\<close>.
\<close>

definition empty_registry :: registry where
  "empty_registry = \<lparr>own = Map.empty, proto = None\<rparr>"

definition example_items :: registry where
  "example_items = \<lparr>own = [''item_medkit'' \<mapsto> medkit], proto = None\<rparr>"

definition armoury :: registry where
  "armoury = \<lparr>own = [''item_sword'' \<mapsto> sword], proto = None\<rparr>"

definition shadowed_items :: registry where
  "shadowed_items = \<lparr>own = [''hasOwnProperty'' \<mapsto> trap], proto = None\<rparr>"

text \<open>
  Players.  \<open>example_world\<close> holds a rope and two medkits, two objects;
  \<open>shared_world\<close> holds one object of amount 2 at both indices of its array, as
  \<^verbatim>\<open>setInventory([m, m])\<close> leaves it; \<open>huge_world\<close> and \<open>vast_world\<close> hold one
  stack of \<open>2^53\<close> and of \<open>2^54\<close> units; \<open>ghost_world\<close> holds a stack whose key
  is \<^verbatim>\<open>__proto__\<close>; \<open>lobby\<close> is a player before \<^verbatim>\<open>playerJoin\<close>, with an empty store.
  \<open>blank\<close> fills the store where no object is.
\<close>

definition blank :: stack where
  "blank = \<lparr>key = [], amount = 0, data = JUndefined\<rparr>"

definition example_world :: world where
  "example_world =
     \<lparr>actor = 7,
      heap = (\<lambda>_. blank)
        (0 := \<lparr>key = ''item_rope'', amount = 1, data = JUndefined\<rparr>,
         1 := \<lparr>key = ''item_medkit'', amount = 2, data = JUndefined\<rparr>),
      allocated = 2,
      inventory = [0, 1],
      emitted = []\<rparr>"

definition shared_world :: world where
  "shared_world =
     \<lparr>actor = 7,
      heap = (\<lambda>_. blank)(0 := \<lparr>key = ''item_medkit'', amount = 2, data = JUndefined\<rparr>),
      allocated = 1,
      inventory = [0, 0],
      emitted = []\<rparr>"

definition huge_world :: world where
  "huge_world =
     \<lparr>actor = 7,
      heap = (\<lambda>_. blank)
        (0 := \<lparr>key = ''item_medkit'', amount = 9007199254740992, data = JUndefined\<rparr>),
      allocated = 1,
      inventory = [0],
      emitted = []\<rparr>"

definition vast_world :: world where
  "vast_world =
     \<lparr>actor = 7,
      heap = (\<lambda>_. blank)
        (0 := \<lparr>key = ''item_medkit'', amount = 18014398509481984, data = JUndefined\<rparr>),
      allocated = 1,
      inventory = [0],
      emitted = []\<rparr>"

definition ghost_world :: world where
  "ghost_world =
     \<lparr>actor = 7,
      heap = (\<lambda>_. blank)(0 := \<lparr>key = ''__proto__'', amount = 1, data = JUndefined\<rparr>),
      allocated = 1,
      inventory = [0],
      emitted = []\<rparr>"


text \<open>
  Hooks.  \<open>wear\<close> writes the \<^verbatim>\<open>data\<close> of the used stack; \<open>consume\<close> removes one
  unit of it through \<open>removeItem\<close>; \<open>spoil\<close> sets its amount to 0; \<open>duplicate\<close>
  replaces the inventory by an array that holds the used object twice.
\<close>

definition wear :: hook where
  "wear s i k x =
     s\<lparr>heap := (heap s)
          (inventory s ! nat i := (heap s (inventory s ! nat i))\<lparr>data := JString ''worn''\<rparr>)\<rparr>"




text \<open>
  Registries with a hook: for \<^verbatim>\<open>item_rope\<close>; installed as the prototype of the dictionary
  by registering \<^verbatim>\<open>__proto__\<close>; and for \<^verbatim>\<open>item_medkit\<close>.
\<close>

definition worn_items :: registry where
  "worn_items = \<lparr>own = [''item_rope'' \<mapsto> medkit\<lparr>name := ''Rope'', onUse := Some wear\<rparr>],
                  proto = None\<rparr>"

definition ghost_items :: registry where
  "ghost_items = \<lparr>own = Map.empty, proto = Some (trap\<lparr>onUse := Some wear\<rparr>)\<rparr>"






section \<open>Facts about values, arithmetic and arrays\<close>

lemma int_of_integer: "int_of (JNumber (of_int n)) = n"
  by (simp add: int_of_def)

lemma Number_isInteger_integer: "Number_isInteger (JNumber (of_int n))"
  by (simp add: Number_isInteger_def)

lemma Number_isInteger_iff: "Number_isInteger v = (\<exists>n. v = JNumber (of_int n))"
  by (auto simp: Number_isInteger_def split: jsval.splits)

lemma positive_integer_iff:
  "(Number_isInteger v \<and> 0 < int_of v) = (\<exists>n. 0 < n \<and> v = JNumber (of_int n))"
  by (auto simp: Number_isInteger_iff int_of_integer)

lemma typeof_string_iff: "typeof_string v = (\<exists>s. v = JString s)"
  by (cases v) (simp_all add: typeof_string_def)

lemma str_of_JString: "str_of (JString s) = s"
  by (simp add: str_of_def)

lemma double_round_exact: "\<bar>n\<bar> \<le> 2 ^ 53 \<Longrightarrow> double_round n = n"
  by (simp add: double_round_def)

lemma js_add_exact: "\<bar>a + b\<bar> \<le> 2 ^ 53 \<Longrightarrow> js_add a b = a + b"
  by (simp add: js_add_def double_round_exact)

lemma js_sub_exact: "\<bar>a - b\<bar> \<le> 2 ^ 53 \<Longrightarrow> js_sub a b = a - b"
  by (simp add: js_sub_def double_round_exact)



lemma findIndex_from_none_iff:
  "0 \<le> i \<Longrightarrow> (findIndex_from P xs i = -1) = (\<forall>x \<in> set xs. \<not> P x)"
  by (induction xs arbitrary: i) auto

lemma findIndex_from_first:
  "0 \<le> i \<Longrightarrow> findIndex_from P xs i \<noteq> -1 \<Longrightarrow>
     i \<le> findIndex_from P xs i \<and> nat (findIndex_from P xs i - i) < length xs \<and>
     P (xs ! nat (findIndex_from P xs i - i)) \<and>
     (\<forall>j < nat (findIndex_from P xs i - i). \<not> P (xs ! j))"
proof (induction xs arbitrary: i)
  case Nil
  then show ?case by simp
next
  case (Cons x xs)
  show ?case
  proof (cases "P x")
    case True
    then show ?thesis by simp
  next
    case False
    define r where "r = findIndex_from P xs (i + 1)"
    have step: "findIndex_from P (x # xs) i = r"
      using False by (simp add: r_def)
    from Cons.prems step have ne: "r \<noteq> -1" by simp
    have "0 \<le> i + 1" using Cons.prems by simp
    from Cons.IH [OF this, of ] ne
    have ih: "i + 1 \<le> r" "nat (r - (i + 1)) < length xs"
      "P (xs ! nat (r - (i + 1)))" "\<forall>j < nat (r - (i + 1)). \<not> P (xs ! j)"
      by (simp_all add: r_def)
    have eq: "nat (r - i) = Suc (nat (r - (i + 1)))"
      using ih(1) by simp
    show ?thesis
      unfolding step eq using False ih
      by (auto simp: less_Suc_eq_0_disj)
  qed
qed

lemma findIndex_none_iff: "(findIndex P xs = -1) = (\<forall>x \<in> set xs. \<not> P x)"
  by (simp add: findIndex_def findIndex_from_none_iff)

lemma findIndex_first:
  assumes "findIndex P xs \<noteq> -1"
  shows "0 \<le> findIndex P xs" "nat (findIndex P xs) < length xs"
    "P (xs ! nat (findIndex P xs))" "\<forall>j < nat (findIndex P xs). \<not> P (xs ! j)"
  using findIndex_from_first [of 0 P xs] assms by (simp_all add: findIndex_def)

lemma findIndex_cong:
  "(\<And>x. x \<in> set xs \<Longrightarrow> P x = Q x) \<Longrightarrow> findIndex P xs = findIndex Q xs"
proof -
  have "(\<And>x. x \<in> set xs \<Longrightarrow> P x = Q x) \<Longrightarrow> findIndex_from P xs i = findIndex_from Q xs i" for i
    by (induction xs arbitrary: i) simp_all
  then show "(\<And>x. x \<in> set xs \<Longrightarrow> P x = Q x) \<Longrightarrow> findIndex P xs = findIndex Q xs"
    by (simp add: findIndex_def)
qed

lemma at_index_Some:
  "0 \<le> i \<Longrightarrow> i < int (length xs) \<Longrightarrow> at_index xs i = Some (xs ! nat i)"
  by (simp add: at_index_def)

lemma at_index_None_iff: "(at_index xs i = None) = (i < 0 \<or> int (length xs) \<le> i)"
  by (auto simp: at_index_def)

text \<open>A left fold with \<open>js_add\<close> is the exact sum while the absolute values stay in range.\<close>

lemma foldl_js_add_exact:
  "\<bar>acc\<bar> + sum_list (map (\<lambda>x. \<bar>f x\<bar>) xs) \<le> 2 ^ 53 \<Longrightarrow>
     foldl (\<lambda>total x. js_add total (f x)) acc xs = acc + sum_list (map f xs)"
proof (induction xs arbitrary: acc)
  case Nil
  then show ?case by simp
next
  case (Cons x xs)
  have nn: "0 \<le> sum_list (map (\<lambda>x. \<bar>f x\<bar>) xs)"
    by (rule sum_list_nonneg) auto
  from Cons.prems nn have "\<bar>acc + f x\<bar> \<le> 2 ^ 53" by simp
  then have step: "js_add acc (f x) = acc + f x" by (rule js_add_exact)
  have "\<bar>acc + f x\<bar> + sum_list (map (\<lambda>x. \<bar>f x\<bar>) xs) \<le> 2 ^ 53"
    using Cons.prems by simp
  from Cons.IH [OF this] show ?case by (simp add: step)
qed

lemma sum_list_abs_if_le:
  "sum_list (map (\<lambda>x. \<bar>if P x then f x else (0::int)\<bar>) xs) \<le> sum_list (map (\<lambda>x. \<bar>f x\<bar>) xs)"
  by (induction xs) auto

lemma sum_list_map_update:
  "i < length xs \<Longrightarrow>
     sum_list (map f (xs[i := y])) = sum_list (map f xs) - f (xs ! i) + f y"
  for f :: "'a \<Rightarrow> int"
  by (induction xs arbitrary: i) (auto split: nat.splits)


section \<open>The registry\<close>

lemma hasItem_plain:
  "own r ''hasOwnProperty'' = None \<Longrightarrow> hasItem r k = Inr (own r k \<noteq> None)"
  by (simp add: hasItem_def)

lemma hasItem_Inr_iff:
  "(hasItem r k = Inr b) = (own r ''hasOwnProperty'' = None \<and> b = (own r k \<noteq> None))"
  by (auto simp: hasItem_def)

lemma hasItem_throws_iff:
  "(hasItem r k = Inl e) = (own r ''hasOwnProperty'' \<noteq> None)"
  by (cases e) (auto simp: hasItem_def)

lemma addItem_accepts:
  assumes "ks \<noteq> []" and "ns \<noteq> []" and "hasItem r ks = Inr False"
  shows "addItem r evs (JString ks) (JString ns) (JString dsc) use nf df =
     Inr (Some \<lparr>name = ns, description = dsc, onUse = use, nameFunc = nf, descFunc = df\<rparr>,
          store_item r ks \<lparr>name = ns, description = dsc, onUse = use, nameFunc = nf, descFunc = df\<rparr>,
          evs @ [ItemDefined ks ns dsc])"
  using assms
  by (simp add: addItem_def typeof_string_iff str_of_JString Let_def)

lemma addItem_rejects_malformed:
  assumes "(\<forall>ks. k \<noteq> JString ks) \<or> k = JString []
         \<or> (\<forall>ns. nm \<noteq> JString ns) \<or> nm = JString []
         \<or> (\<forall>dsc. ds \<noteq> JString dsc)"
  shows "addItem r evs k nm ds use nf df = Inr (None, r, evs)"
proof -
  have "\<not> typeof_string k \<or> length (str_of k) < 1 \<or> \<not> typeof_string nm
      \<or> length (str_of nm) < 1 \<or> \<not> typeof_string ds"
    using assms by (auto simp: typeof_string_iff str_of_JString)
  then show ?thesis by (auto simp: addItem_def)
qed

lemma addItem_rejects_duplicate:
  assumes "hasItem r ks = Inr True"
  shows "addItem r evs (JString ks) nm ds use nf df = Inr (None, r, evs)"
  using assms by (simp add: addItem_def str_of_JString)

lemma addItem_throws:
  assumes "own r ''hasOwnProperty'' \<noteq> None" and "ks \<noteq> []" and "ns \<noteq> []"
  shows "addItem r evs (JString ks) (JString ns) (JString dsc) use nf df = Inl TypeError"
  using assms
  by (simp add: addItem_def typeof_string_iff str_of_JString hasItem_def)

text \<open>
  C5.  A second \<open>addItem\<close> of a key ought to return \<^verbatim>\<open>null\<close>, keep the first
  definition and emit no second \<^verbatim>\<open>itemDefined\<close>; \<open>addItem_rejects_duplicate\<close> and
  \<open>addItem_rejects_malformed\<close> show that where \<open>hasItem\<close> answers.  The test
  \<^verbatim>\<open>this._items.hasOwnProperty(key)\<close> is called through the dictionary itself, and fails
  for two keys.  The key \<^verbatim>\<open>hasOwnProperty\<close> is accepted the first time and stored as an
  own property; the second \<open>addItem\<close> of it then finds that definition in place of the
  method, and throws a \<^verbatim>\<open>TypeError\<close> instead of returning \<^verbatim>\<open>null\<close>.  The key
  \<^verbatim>\<open>__proto__\<close> is accepted the first time and becomes the prototype of the dictionary,
  no own property; the second \<open>addItem\<close> of it is accepted too, returns a definition and
  emits \<^verbatim>\<open>itemDefined\<close> a second time.
\<close>

theorem addItem_duplicate_throws:
  "addItem empty_registry [] (JString ''hasOwnProperty'') (JString ''Trap'') (JString [])
      None None None
     = Inr (Some trap, shadowed_items, [ItemDefined ''hasOwnProperty'' ''Trap'' []]) \<and>
   addItem shadowed_items [ItemDefined ''hasOwnProperty'' ''Trap'' []]
      (JString ''hasOwnProperty'') (JString ''Trap'') (JString []) None None None
     = Inl TypeError \<and>
   addItem empty_registry [] (JString ''__proto__'') (JString ''Trap'') (JString [])
      None None None
     = Inr (Some trap, empty_registry\<lparr>proto := Some trap\<rparr>, [ItemDefined ''__proto__'' ''Trap'' []]) \<and>
   addItem (empty_registry\<lparr>proto := Some trap\<rparr>) [ItemDefined ''__proto__'' ''Trap'' []]
      (JString ''__proto__'') (JString ''Trap'') (JString []) None None None
     = Inr (Some trap, empty_registry\<lparr>proto := Some trap\<rparr>,
            [ItemDefined ''__proto__'' ''Trap'' [], ItemDefined ''__proto__'' ''Trap'' []])"
  by (simp add: addItem_def typeof_string_def str_of_def hasItem_def empty_registry_def
      shadowed_items_def trap_def store_item_def Let_def)

text \<open>
  So the second \<open>addItem\<close> of \<^verbatim>\<open>hasOwnProperty\<close> returns nothing, and the second
  \<open>addItem\<close> of \<^verbatim>\<open>__proto__\<close> returns the definition and leaves two events in the log.
\<close>

theorem addItem_duplicate_throws_witness:
  "isl (addItem shadowed_items [ItemDefined ''hasOwnProperty'' ''Trap'' []]
      (JString ''hasOwnProperty'') (JString ''Trap'') (JString []) None None None) \<and>
   map_sum id fst
     (addItem (empty_registry\<lparr>proto := Some trap\<rparr>) [ItemDefined ''__proto__'' ''Trap'' []]
        (JString ''__proto__'') (JString ''Trap'') (JString []) None None None)
     = Inr (Some trap) \<and>
   map_sum id (\<lambda>res. length (snd (snd res)))
     (addItem (empty_registry\<lparr>proto := Some trap\<rparr>) [ItemDefined ''__proto__'' ''Trap'' []]
        (JString ''__proto__'') (JString ''Trap'') (JString []) None None None)
     = Inr 2"
  using addItem_duplicate_throws by simp

text \<open>
  \<open>ghost_items\<close> is the registry after a definition with the hook \<open>wear\<close> has been
  registered under the key \<^verbatim>\<open>__proto__\<close>; \<open>hasItem\<close> is false of that key, before
  and after.
\<close>

lemma ghost_items_registered:
  "addItem empty_registry [] (JString ''__proto__'') (JString ''Trap'') (JString [])
      (Some wear) None None
     = Inr (Some (trap\<lparr>onUse := Some wear\<rparr>), ghost_items,
            [ItemDefined ''__proto__'' ''Trap'' []]) \<and>
   hasItem empty_registry ''__proto__'' = Inr False \<and>
   hasItem ghost_items ''__proto__'' = Inr False \<and>
   getItem ghost_items ''__proto__'' = Some (trap\<lparr>onUse := Some wear\<rparr>)"
  by (simp add: addItem_def typeof_string_def str_of_def hasItem_def empty_registry_def
      ghost_items_def trap_def store_item_def getItem_def Let_def)

text \<open>
  Where \<open>hasItem\<close> answers, the two display functions do what their documentation
  says: the sentinel "Invalid Item" and the empty string for a key that is not registered,
  the function's result or the static text for one that is.
\<close>

lemma getItemName_cases:
  "(hasItem r k = Inr False \<longrightarrow>
      getItemName r k dat = Inr ''Invalid Item'' \<and> getItemDescription r k dat = Inr '''') \<and>
   (\<forall>d. hasItem r k = Inr True \<and> own r k = Some d \<longrightarrow>
      getItemName r k dat = Inr (case nameFunc d of Some f \<Rightarrow> f dat | None \<Rightarrow> name d) \<and>
      getItemDescription r k dat =
        Inr (case descFunc d of Some f \<Rightarrow> f dat | None \<Rightarrow> description d))"
  by (auto simp: getItemName_def getItemDescription_def)

lemma getItemName_example:
  "getItemName armoury ''item_axe'' JUndefined = Inr ''Invalid Item'' \<and>
   getItemDescription armoury ''item_axe'' JUndefined = Inr '''' \<and>
   getItemName armoury ''item_sword'' (JString ''Fire'') = Inr ''Sword of Fire'' \<and>
   getItemDescription armoury ''item_sword'' (JString ''Fire'') = Inr ''A blade''"
  by (simp add: getItemName_def getItemDescription_def hasItem_def armoury_def sword_def str_of_def)

text \<open>
  C7.  For a key that is not registered \<open>getItemName\<close> ought to return "Invalid Item"
  and \<open>getItemDescription\<close> the empty string, and for a registered key the name and
  the description of its definition.  Both call \<open>hasItem\<close> first: once a definition is
  registered under the key \<^verbatim>\<open>hasOwnProperty\<close>, which \<open>addItem\<close> accepts, both throw a
  \<^verbatim>\<open>TypeError\<close> for every key, registered or not.  It is the defect of C5 and C4, met
  from another function.
\<close>

theorem getItemName_throws:
  "getItemName shadowed_items ''item_axe'' JUndefined = Inl TypeError \<and>
   getItemDescription shadowed_items ''item_axe'' JUndefined = Inl TypeError \<and>
   getItemName shadowed_items ''hasOwnProperty'' JUndefined = Inl TypeError \<and>
   getItemDescription shadowed_items ''hasOwnProperty'' JUndefined = Inl TypeError"
  by (simp add: getItemName_def getItemDescription_def hasItem_def shadowed_items_def)


section \<open>Giving items\<close>

text \<open>
  Where \<open>hasItem\<close> answers, \<open>giveItem\<close> refuses an unregistered key and an amount
  that is no positive integer: it returns false and the player, the store and the event
  log are as before.
\<close>

lemma giveItem_rejects:
  assumes "hasItem r itemKey = Inr False
         \<or> (hasItem r itemKey = Inr True \<and> \<not> (\<exists>n. 0 < n \<and> amt = JNumber (of_int n)))"
  shows "giveItem r s itemKey amt dat = Inr (False, s)"
  using assms unfolding positive_integer_iff [symmetric]
  by (auto simp: giveItem_def)

text \<open>
  C4.  With an unregistered key, or with an amount that is no positive integer,
  \<open>giveItem\<close> ought to return false and change nothing.  It calls
  \<^verbatim>\<open>inventoryScript.hasItem(itemKey)\<close> before anything else: once a definition is
  registered under the key \<^verbatim>\<open>hasOwnProperty\<close>, that call throws a \<^verbatim>\<open>TypeError\<close>, and
  \<open>giveItem\<close> throws instead of returning false, both for the unregistered key
  \<^verbatim>\<open>item_medkit\<close> with amount 5 and for a registered key with amount 0.  It is the
  defect of C5 and C7, met from another function.
\<close>

theorem giveItem_throws:
  "hasItem shadowed_items ''item_medkit'' = Inl TypeError \<and>
   giveItem shadowed_items example_world ''item_medkit'' (JNumber 5) JUndefined = Inl TypeError \<and>
   giveItem shadowed_items example_world ''hasOwnProperty'' (JNumber 0) JUndefined = Inl TypeError"
  by (simp add: giveItem_def hasItem_def shadowed_items_def)

lemma map_fun_upd_distinct:
  "distinct xs \<Longrightarrow> i < length xs \<Longrightarrow> map (g(xs ! i := v)) xs = (map g xs)[i := v]"
  by (rule nth_equalityI) (auto simp: nth_list_update nth_eq_iff_index_eq)

lemma map_fun_upd_notin: "a \<notin> set xs \<Longrightarrow> map (g(a := v)) xs = map g xs"
  by (induction xs) auto

lemma through_update: "(\<lambda>a. F ((h(a0 := v)) a)) = (\<lambda>a. F (h a))(a0 := F v)"
  by auto

lemma sum_list_abs_update:
  fixes g :: "'a \<Rightarrow> int"
  assumes "i < length xs"
  shows "sum_list (map (\<lambda>x. \<bar>x\<bar>) ((map g xs)[i := v]))
       = sum_list (map (\<lambda>x. \<bar>g x\<bar>) xs) - \<bar>g (xs ! i)\<bar> + \<bar>v\<bar>"
proof -
  have "sum_list (map (\<lambda>x. \<bar>x\<bar>) ((map g xs)[i := v]))
      = sum_list (map (\<lambda>x. \<bar>x\<bar>) (map g xs)) - \<bar>map g xs ! i\<bar> + \<bar>v\<bar>"
    using assms by (subst sum_list_map_update) simp_all
  then show ?thesis using assms by (simp add: comp_def)
qed

lemma getTotalItemAmount_exact:
  assumes "sum_list (map (\<lambda>it. \<bar>amount (heap s it)\<bar>) (inventory s)) \<le> 2 ^ 53"
  shows "getTotalItemAmount s = sum_list (map (\<lambda>it. amount (heap s it)) (inventory s))"
  unfolding getTotalItemAmount_def
  using assms by (subst foldl_js_add_exact) simp_all

lemma getItemAmountWithData_exact:
  assumes "sum_list (map (\<lambda>it. \<bar>amount (heap s it)\<bar>) (inventory s)) \<le> 2 ^ 53"
  shows "getItemAmountWithData s k d =
     sum_list (map (\<lambda>it. if key (heap s it) = k \<and> data (heap s it) = d
                          then amount (heap s it) else 0) (inventory s))"
proof -
  have "sum_list (map (\<lambda>it. \<bar>if key (heap s it) = k \<and> data (heap s it) = d
                          then amount (heap s it) else 0\<bar>) (inventory s))
      \<le> sum_list (map (\<lambda>it. \<bar>amount (heap s it)\<bar>) (inventory s))"
    by (rule sum_list_abs_if_le)
  with assms have "\<bar>0::int\<bar> + sum_list (map (\<lambda>it. \<bar>if key (heap s it) = k \<and> data (heap s it) = d
                          then amount (heap s it) else 0\<bar>) (inventory s)) \<le> 2 ^ 53"
    by simp
  from foldl_js_add_exact [OF this] show ?thesis
    by (simp add: getItemAmountWithData_def isEqual_def)
qed

lemma hasItemWithData_iff:
  "hasItemWithData s k d =
     (\<exists>it \<in> set (inventory s). key (heap s it) = k \<and> data (heap s it) = d)"
  by (simp add: hasItemWithData_def findIndex_none_iff isEqual_def)

lemma getItemIndexWithData_none_iff:
  "(getItemIndexWithData s k d = -1) =
     (\<not> (\<exists>it \<in> set (inventory s). key (heap s it) = k \<and> data (heap s it) = d))"
  by (simp add: getItemIndexWithData_def findIndex_none_iff isEqual_def)

lemma getItemIndexWithData_found:
  assumes "\<exists>it \<in> set (inventory s). key (heap s it) = itemKey \<and> data (heap s it) = dat"
  shows "nat (getItemIndexWithData s itemKey dat) < length (inventory s)"
    and "key (heap s (inventory s ! nat (getItemIndexWithData s itemKey dat))) = itemKey"
    and "data (heap s (inventory s ! nat (getItemIndexWithData s itemKey dat))) = dat"
    and "\<forall>j < nat (getItemIndexWithData s itemKey dat).
           \<not> (key (heap s (inventory s ! j)) = itemKey \<and> data (heap s (inventory s ! j)) = dat)"
proof -
  have "findIndex (\<lambda>i. key (heap s i) = itemKey \<and> isEqual (data (heap s i)) dat) (inventory s) \<noteq> -1"
    using assms by (simp add: findIndex_none_iff isEqual_def)
  from findIndex_first [OF this]
  show "nat (getItemIndexWithData s itemKey dat) < length (inventory s)"
    and "key (heap s (inventory s ! nat (getItemIndexWithData s itemKey dat))) = itemKey"
    and "data (heap s (inventory s ! nat (getItemIndexWithData s itemKey dat))) = dat"
    and "\<forall>j < nat (getItemIndexWithData s itemKey dat).
           \<not> (key (heap s (inventory s ! j)) = itemKey \<and> data (heap s (inventory s ! j)) = dat)"
    by (simp_all add: getItemIndexWithData_def isEqual_def)
qed

text \<open>What a successful \<open>giveItem\<close> returns, the arithmetic left as the source does it.\<close>

lemma giveItem_accepts:
  assumes "hasItem r itemKey = Inr True" and "0 < n"
  shows "giveItem r s itemKey (JNumber (of_int n)) dat =
     Inr (True,
       (if getItemIndexWithData s itemKey dat \<noteq> -1
        then s\<lparr>heap := (heap s)
                 (inventory s ! nat (getItemIndexWithData s itemKey dat) :=
                    (heap s (inventory s ! nat (getItemIndexWithData s itemKey dat)))
                      \<lparr>amount := js_add
                         (amount (heap s (inventory s ! nat (getItemIndexWithData s itemKey dat)))) n\<rparr>),
               emitted := emitted s @ [ItemAdded (actor s) itemKey n dat]\<rparr>
        else s\<lparr>heap := (heap s)(allocated s := \<lparr>key = itemKey, amount = n, data = dat\<rparr>),
               allocated := Suc (allocated s),
               inventory := inventory s @ [allocated s],
               emitted := emitted s @ [ItemAdded (actor s) itemKey n dat]\<rparr>))"
  using assms
  by (simp add: giveItem_def Let_def int_of_integer Number_isInteger_integer)


lemma elem_le_sum_abs:
  fixes g :: "'a \<Rightarrow> int"
  shows "x \<in> set xs \<Longrightarrow> \<bar>g x\<bar> \<le> sum_list (map (\<lambda>x. \<bar>g x\<bar>) xs)"
proof (induction xs)
  case Nil
  then show ?case by simp
next
  case (Cons y ys)
  have "0 \<le> sum_list (map (\<lambda>x. \<bar>g x\<bar>) ys)" by (rule sum_list_nonneg) auto
  with Cons show ?case by auto
qed

lemma distinct_objects_fresh:
  "distinct_objects s (inventory s) \<Longrightarrow> allocated s \<notin> set (inventory s)"
  by (auto simp: distinct_objects_def list_all_iff)

lemma distinct_objects_distinct:
  "distinct_objects s (inventory s) \<Longrightarrow> distinct (inventory s)"
  by (simp add: distinct_objects_def)

text \<open>The sums of a world whose store differs at one object that stands at one index.\<close>

lemma sum_list_heap_update:
  fixes F :: "stack \<Rightarrow> int"
  assumes "distinct xs" and "i < length xs"
  shows "sum_list (map (\<lambda>it. F ((h(xs ! i := v)) it)) xs)
       = sum_list (map (\<lambda>it. F (h it)) xs) - F (h (xs ! i)) + F v"
proof -
  let ?ys = "map (\<lambda>it. F (h it)) xs"
  have eq: "map (\<lambda>it. F ((h(xs ! i := v)) it)) xs = ?ys[i := F v]"
    unfolding through_update using assms by (rule map_fun_upd_distinct)
  have "sum_list (map (\<lambda>x. x) (?ys[i := F v])) = sum_list (map (\<lambda>x. x) ?ys) - ?ys ! i + F v"
    by (rule sum_list_map_update) (simp add: assms(2))
  then have "sum_list (?ys[i := F v]) = sum_list ?ys - F (h (xs ! i)) + F v"
    using assms(2) by (simp only: map_ident nth_map)
  then show ?thesis by (simp only: eq)
qed

lemma sum_list_heap_fresh:
  fixes F :: "stack \<Rightarrow> int"
  assumes "a \<notin> set xs"
  shows "sum_list (map (\<lambda>it. F ((h(a := v)) it)) xs) = sum_list (map (\<lambda>it. F (h it)) xs)"
proof -
  have "map (\<lambda>it. F ((h(a := v)) it)) xs = map (\<lambda>it. F (h it)) xs"
    unfolding through_update using assms by (rule map_fun_upd_notin)
  then show ?thesis by (simp only:)
qed

text \<open>
  C1.  Let the key be one that \<open>hasItem\<close> reports as registered, \<open>n\<close> a
  positive integer, the stacks of the inventory distinct objects of the store, and the absolute amounts
  of the inventory together with \<open>n\<close> at most \<open>2^53\<close>.  Then \<open>giveItem\<close>
  returns true, \<open>getItemAmountWithData\<close> of the key and data grows by exactly
  \<open>n\<close>, and so does \<open>getTotalItemAmount\<close>.  If a stack with that key and
  structurally equal data exists, the first such stack is incremented in place and the
  array is the same; otherwise a new object with the key, \<open>n\<close> and the data is
  appended at the end, and no existing object changes.
\<close>

theorem giveItem_success:
  fixes s :: world
  assumes reg: "hasItem r itemKey = Inr True" and pos: "0 < n"
    and objs: "distinct_objects s (inventory s)"
    and bound: "sum_list (map (\<lambda>it. \<bar>amount (heap s it)\<bar>) (inventory s)) + n \<le> 2 ^ 53"
  shows "\<exists>s'. giveItem r s itemKey (JNumber (of_int n)) dat = Inr (True, s') \<and>
    getItemAmountWithData s' itemKey dat = getItemAmountWithData s itemKey dat + n \<and>
    getTotalItemAmount s' = getTotalItemAmount s + n \<and>
    (if \<exists>it \<in> set (inventory s). key (heap s it) = itemKey \<and> data (heap s it) = dat
     then \<exists>i < length (inventory s).
            key (heap s (inventory s ! i)) = itemKey \<and> data (heap s (inventory s ! i)) = dat \<and>
            (\<forall>j < i. \<not> (key (heap s (inventory s ! j)) = itemKey \<and>
                          data (heap s (inventory s ! j)) = dat)) \<and>
            inventory s' = inventory s \<and>
            heap s' = (heap s)(inventory s ! i :=
              (heap s (inventory s ! i))\<lparr>amount := amount (heap s (inventory s ! i)) + n\<rparr>)
     else inventory s' = inventory s @ [allocated s] \<and>
          heap s' = (heap s)(allocated s := \<lparr>key = itemKey, amount = n, data = dat\<rparr>))"
proof -
  let ?xs = "inventory s"
  let ?h = "heap s"
  let ?A = "sum_list (map (\<lambda>it. \<bar>amount (?h it)\<bar>) ?xs)"
  let ?G = "\<lambda>st. if key st = itemKey \<and> data st = dat then amount st else 0"
  have A0: "0 \<le> ?A" by (rule sum_list_nonneg) auto
  from bound pos have A53: "?A \<le> 2 ^ 53" by simp
  note before_total = getTotalItemAmount_exact [OF A53]
  note before_data = getItemAmountWithData_exact [OF A53, of itemKey dat]
  note dist = distinct_objects_distinct [OF objs]
  show ?thesis
  proof (cases "\<exists>it \<in> set ?xs. key (?h it) = itemKey \<and> data (?h it) = dat")
    case True
    let ?i = "nat (getItemIndexWithData s itemKey dat)"
    let ?a = "?xs ! ?i"
    note f = getItemIndexWithData_found [OF True]
    from True have idx: "getItemIndexWithData s itemKey dat \<noteq> -1"
      using getItemIndexWithData_none_iff [of s itemKey dat] by blast
    have mem: "?a \<in> set ?xs" using f(1) by simp
    have "\<bar>amount (?h ?a)\<bar> \<le> ?A" using mem by (rule elem_le_sum_abs)
    with bound pos have small: "\<bar>amount (?h ?a) + n\<bar> \<le> 2 ^ 53" by simp
    then have add: "js_add (amount (?h ?a)) n = amount (?h ?a) + n" by (rule js_add_exact)
    define v where "v = (?h ?a)\<lparr>amount := amount (?h ?a) + n\<rparr>"
    define s' where "s' = s\<lparr>heap := ?h(?a := v),
                              emitted := emitted s @ [ItemAdded (actor s) itemKey n dat]\<rparr>"
    have res: "giveItem r s itemKey (JNumber (of_int n)) dat = Inr (True, s')"
      unfolding giveItem_accepts [OF reg pos] using idx by (simp add: s'_def v_def add)
    have inv': "inventory s' = ?xs" and heap': "heap s' = ?h(?a := v)"
      by (simp_all add: s'_def)
    have Gv: "?G v = amount (?h ?a) + n" using f(2,3) by (simp add: v_def)
    have Ga: "?G (?h ?a) = amount (?h ?a)" using f(2,3) by simp
    have "sum_list (map (\<lambda>it. \<bar>amount (heap s' it)\<bar>) (inventory s'))
        = ?A - \<bar>amount (?h ?a)\<bar> + \<bar>amount v\<bar>"
      unfolding inv' heap' using dist f(1) by (rule sum_list_heap_update)
    also have "\<dots> \<le> ?A + n" using pos by (simp add: v_def)
    finally have A53': "sum_list (map (\<lambda>it. \<bar>amount (heap s' it)\<bar>) (inventory s')) \<le> 2 ^ 53"
      using bound by simp
    have "getTotalItemAmount s' = sum_list (map (\<lambda>it. amount (heap s' it)) (inventory s'))"
      by (rule getTotalItemAmount_exact [OF A53'])
    also have "\<dots> = sum_list (map (\<lambda>it. amount (?h it)) ?xs) - amount (?h ?a) + amount v"
      unfolding inv' heap' using dist f(1) by (rule sum_list_heap_update)
    finally have total: "getTotalItemAmount s' = getTotalItemAmount s + n"
      by (simp add: before_total v_def)
    have "getItemAmountWithData s' itemKey dat
        = sum_list (map (\<lambda>it. ?G (heap s' it)) (inventory s'))"
      by (rule getItemAmountWithData_exact [OF A53'])
    also have "\<dots> = sum_list (map (\<lambda>it. ?G (?h it)) ?xs) - ?G (?h ?a) + ?G v"
      unfolding inv' heap' using dist f(1) by (rule sum_list_heap_update)
    finally have withdata:
      "getItemAmountWithData s' itemKey dat = getItemAmountWithData s itemKey dat + n"
      unfolding Gv Ga by (simp add: before_data)
    have shape: "\<exists>i < length ?xs.
            key (?h (?xs ! i)) = itemKey \<and> data (?h (?xs ! i)) = dat \<and>
            (\<forall>j < i. \<not> (key (?h (?xs ! j)) = itemKey \<and> data (?h (?xs ! j)) = dat)) \<and>
            inventory s' = ?xs \<and>
            heap s' = ?h(?xs ! i := (?h (?xs ! i))\<lparr>amount := amount (?h (?xs ! i)) + n\<rparr>)"
      using f inv' heap' by (intro exI [of _ ?i]) (simp add: v_def)
    show ?thesis
      using res withdata total shape True by (intro exI [of _ s']) presburger
  next
    case False
    then have idx: "getItemIndexWithData s itemKey dat = -1"
      using getItemIndexWithData_none_iff [of s itemKey dat] by blast
    let ?a = "allocated s"
    define v where "v = \<lparr>key = itemKey, amount = n, data = dat\<rparr>"
    define s' where "s' = s\<lparr>heap := ?h(?a := v), allocated := Suc ?a,
                              inventory := ?xs @ [?a],
                              emitted := emitted s @ [ItemAdded (actor s) itemKey n dat]\<rparr>"
    have res: "giveItem r s itemKey (JNumber (of_int n)) dat = Inr (True, s')"
      unfolding giveItem_accepts [OF reg pos] using idx by (simp add: s'_def v_def)
    have inv': "inventory s' = ?xs @ [?a]" and heap': "heap s' = ?h(?a := v)"
      by (simp_all add: s'_def)
    note fresh = distinct_objects_fresh [OF objs]
    have "sum_list (map (\<lambda>it. \<bar>amount (heap s' it)\<bar>) (inventory s')) = ?A + \<bar>amount v\<bar>"
      unfolding inv' heap' using sum_list_heap_fresh [OF fresh, of "\<lambda>st. \<bar>amount st\<bar>" ?h v]
      by simp
    then have A53': "sum_list (map (\<lambda>it. \<bar>amount (heap s' it)\<bar>) (inventory s')) \<le> 2 ^ 53"
      using bound pos by (simp add: v_def)
    have "getTotalItemAmount s' = sum_list (map (\<lambda>it. amount (heap s' it)) (inventory s'))"
      by (rule getTotalItemAmount_exact [OF A53'])
    also have "\<dots> = sum_list (map (\<lambda>it. amount (?h it)) ?xs) + amount v"
      unfolding inv' heap' using sum_list_heap_fresh [OF fresh, of amount ?h v] by simp
    finally have total: "getTotalItemAmount s' = getTotalItemAmount s + n"
      by (simp add: before_total v_def)
    have "getItemAmountWithData s' itemKey dat
        = sum_list (map (\<lambda>it. ?G (heap s' it)) (inventory s'))"
      by (rule getItemAmountWithData_exact [OF A53'])
    also have "\<dots> = sum_list (map (\<lambda>it. ?G (?h it)) ?xs) + ?G v"
      unfolding inv' heap' using sum_list_heap_fresh [OF fresh, of ?G ?h v] by simp
    finally have withdata:
      "getItemAmountWithData s' itemKey dat = getItemAmountWithData s itemKey dat + n"
      by (simp add: before_data v_def)
    have shape: "inventory s' = ?xs @ [?a] \<and>
        heap s' = ?h(?a := \<lparr>key = itemKey, amount = n, data = dat\<rparr>)"
      using inv' heap' by (simp add: v_def)
    show ?thesis
      using res withdata total shape False by (intro exI [of _ s']) presburger
  qed
qed

text \<open>
  For the evaluation of examples: below \<open>2^53\<close> the two operations are exact; one
  above \<open>2^53\<close>, and one below \<open>2^54\<close>, they round back.
\<close>

lemma js_add_small [simp]: "\<bar>a + b\<bar> \<le> 9007199254740992 \<Longrightarrow> js_add a b = a + b"
  using js_add_exact [of a b] by simp

lemma js_sub_small [simp]: "\<bar>a - b\<bar> \<le> 9007199254740992 \<Longrightarrow> js_sub a b = a - b"
  using js_sub_exact [of a b] by simp

lemma js_add_rounds: "js_add 9007199254740992 1 = 9007199254740992"
  by code_simp

lemma js_sub_rounds: "js_sub 18014398509481984 1 = 18014398509481984"
  by code_simp

text \<open>
  The definitions that evaluate a \<open>giveItem\<close> call and the amounts around it.
\<close>

lemmas eval_give =
  giveItem_def hasItem_def Number_isInteger_def int_of_def Let_def
  getItemIndexWithData_def findIndex_def isEqual_def
  getItemAmountWithData_def getTotalItemAmount_def

text \<open>
  C1 does not hold of every inventory, amount and registered key.  In \<open>shared_world\<close>
  one object of amount 2 stands at both indices: after a successful \<open>giveItem\<close> of 3
  the object holds 5, and both the amount of that key and data and the total amount rise
  from 4 to 10.  In \<open>huge_world\<close> the stack holds \<open>2^53\<close> units: a successful
  \<open>giveItem\<close> of 1 leaves \<open>2^53\<close>, the sum being rounded to the nearest double.  And
  where the key \<^verbatim>\<open>hasOwnProperty\<close> is registered, a \<open>giveItem\<close> of that registered
  key throws.
\<close>

theorem giveItem_shared_or_rounded:
  "map_sum id fst (giveItem example_items shared_world ''item_medkit'' (JNumber 3) JUndefined)
     = Inr True \<and>
   getTotalItemAmount shared_world = 4 \<and>
   getTotalItemAmount
     (perform example_items shared_world (Give ''item_medkit'' (JNumber 3) JUndefined)) = 10 \<and>
   getItemAmountWithData shared_world ''item_medkit'' JUndefined = 4 \<and>
   getItemAmountWithData
     (perform example_items shared_world (Give ''item_medkit'' (JNumber 3) JUndefined))
     ''item_medkit'' JUndefined = 10 \<and>
   map_sum id fst (giveItem example_items huge_world ''item_medkit'' (JNumber 1) JUndefined)
     = Inr True \<and>
   getItemAmountWithData huge_world ''item_medkit'' JUndefined = 9007199254740992 \<and>
   getItemAmountWithData
     (perform example_items huge_world (Give ''item_medkit'' (JNumber 1) JUndefined))
     ''item_medkit'' JUndefined = 9007199254740992 \<and>
   own shadowed_items ''hasOwnProperty'' = Some trap \<and>
   giveItem shadowed_items example_world ''hasOwnProperty'' (JNumber 1) JUndefined
     = Inl TypeError"
proof -
  have a: "map_sum id fst
      (giveItem example_items shared_world ''item_medkit'' (JNumber 3) JUndefined) = Inr True"
    "getTotalItemAmount shared_world = 4"
    "getTotalItemAmount
       (perform example_items shared_world (Give ''item_medkit'' (JNumber 3) JUndefined)) = 10"
    "getItemAmountWithData shared_world ''item_medkit'' JUndefined = 4"
    "getItemAmountWithData
       (perform example_items shared_world (Give ''item_medkit'' (JNumber 3) JUndefined))
       ''item_medkit'' JUndefined = 10"
    by (simp_all add: eval_give example_items_def shared_world_def)
  have b: "map_sum id fst
      (giveItem example_items huge_world ''item_medkit'' (JNumber 1) JUndefined) = Inr True"
    "getItemAmountWithData huge_world ''item_medkit'' JUndefined = 9007199254740992"
    "getItemAmountWithData
       (perform example_items huge_world (Give ''item_medkit'' (JNumber 1) JUndefined))
       ''item_medkit'' JUndefined = 9007199254740992"
    by (simp_all add: eval_give example_items_def huge_world_def js_add_rounds)
  have c: "own shadowed_items ''hasOwnProperty'' = Some trap"
    "giveItem shadowed_items example_world ''hasOwnProperty'' (JNumber 1) JUndefined
       = Inl TypeError"
    by (simp_all add: eval_give shadowed_items_def)
  from a b c show ?thesis by simp
qed

text \<open>
  Three medkits given to \<open>example_world\<close>: the stack at index 1 goes from 2 to 5, the
  total from 3 to 6.
\<close>

theorem giveItem_success_witness:
  "hasItem example_items ''item_medkit'' = Inr True \<and> (0::int) < 3 \<and>
   distinct_objects example_world (inventory example_world) \<and>
   sum_list (map (\<lambda>it. \<bar>amount (heap example_world it)\<bar>) (inventory example_world)) + 3
     \<le> 2 ^ 53 \<and>
   map_sum id fst (giveItem example_items example_world ''item_medkit'' (JNumber 3) JUndefined)
     = Inr True \<and>
   getItemAmountWithData example_world ''item_medkit'' JUndefined = 2 \<and>
   getItemAmountWithData
     (perform example_items example_world (Give ''item_medkit'' (JNumber 3) JUndefined))
     ''item_medkit'' JUndefined = 5 \<and>
   getTotalItemAmount example_world = 3 \<and>
   getTotalItemAmount
     (perform example_items example_world (Give ''item_medkit'' (JNumber 3) JUndefined)) = 6 \<and>
   inventory (perform example_items example_world (Give ''item_medkit'' (JNumber 3) JUndefined))
     = [0, 1] \<and>
   amount (heap (perform example_items example_world
     (Give ''item_medkit'' (JNumber 3) JUndefined)) 1) = 5"
proof -
  have h: "hasItem example_items ''item_medkit'' = Inr True" "(0::int) < 3"
    "distinct_objects example_world (inventory example_world)"
    "sum_list (map (\<lambda>it. \<bar>amount (heap example_world it)\<bar>) (inventory example_world)) + 3
       \<le> 2 ^ 53"
    by (simp_all add: hasItem_def example_items_def distinct_objects_def example_world_def)
  from giveItem_success [OF h, of JUndefined]
  obtain s' where s':
    "giveItem example_items example_world ''item_medkit'' (JNumber 3) JUndefined = Inr (True, s')"
    "getItemAmountWithData s' ''item_medkit'' JUndefined
       = getItemAmountWithData example_world ''item_medkit'' JUndefined + 3"
    "getTotalItemAmount s' = getTotalItemAmount example_world + 3"
    by auto
  have p: "perform example_items example_world (Give ''item_medkit'' (JNumber 3) JUndefined) = s'"
    by (simp add: s'(1))
  have before: "getItemAmountWithData example_world ''item_medkit'' JUndefined = 2"
    "getTotalItemAmount example_world = 3"
    by (simp_all add: eval_give example_world_def)
  have shape:
    "inventory (perform example_items example_world (Give ''item_medkit'' (JNumber 3) JUndefined))
       = [0, 1]"
    "amount (heap (perform example_items example_world
       (Give ''item_medkit'' (JNumber 3) JUndefined)) 1) = 5"
    by (simp_all add: eval_give example_items_def example_world_def)
  show ?thesis
    using h s' before shape unfolding p by simp
qed


section \<open>One stack for a key and its data\<close>










section \<open>Removing items\<close>

lemma removeItem_accepts:
  assumes "0 \<le> idx" and "idx < int (length (inventory s))" and "0 < n"
  shows "removeItem s (JNumber (of_int idx)) (JNumber (of_int n)) =
     (let it = inventory s ! nat idx;
          h1 = (heap s)(it := (heap s it)\<lparr>amount := js_sub (amount (heap s it)) n\<rparr>);
          ev1 = emitted s @ [ItemRemoved (actor s) idx (key (heap s it)) n (data (heap s it))]
      in if js_sub (amount (heap s it)) n < 1
         then (True, s\<lparr>heap := h1,
                       inventory := take (nat idx) (inventory s) @ drop (Suc (nat idx)) (inventory s),
                       emitted := ev1 @
                         [ItemRemovedCompletely (actor s) (key (heap s it)) (data (heap s it))]\<rparr>)
         else (True, s\<lparr>heap := h1, emitted := ev1\<rparr>))"
proof -
  have k: "nat idx < length (inventory s)" using assms(1,2) by simp
  show ?thesis
    using assms k
    by (simp add: removeItem_def Let_def int_of_integer Number_isInteger_integer
        at_index_Some splice1_def)
qed




text \<open>
  C2.  Let the index hold a stack, \<open>n\<close> be a positive integer, the stacks of
  the inventory be distinct objects, and the difference of the stack's amount and
  \<open>n\<close> be at most \<open>2^53\<close> in absolute value.  Then \<open>removeItem\<close> returns
  true and decrements that object by \<open>n\<close>; every other object, and so the stack
  at every other index, is unchanged.  Exactly when the new amount is below 1 the index is
  spliced out of the array, the object is no longer in the inventory, and the events are
  \<^verbatim>\<open>itemRemoved\<close> with (actor, index, key, \<open>n\<close>, data) followed by
  \<^verbatim>\<open>itemRemovedCompletely\<close> with (actor, key, data); otherwise the array is the same and
  the only event is \<^verbatim>\<open>itemRemoved\<close>.
\<close>

theorem removeItem_success:
  fixes s :: world
  assumes lo: "0 \<le> idx" and hi: "idx < int (length (inventory s))" and pos: "0 < n"
    and dist: "distinct (inventory s)"
    and exact: "\<bar>amount (heap s (inventory s ! nat idx)) - n\<bar> \<le> 2 ^ 53"
  defines "res \<equiv> removeItem s (JNumber (of_int idx)) (JNumber (of_int n))"
    and "it \<equiv> inventory s ! nat idx"
  shows "fst res = True \<and> actor (snd res) = actor s \<and>
    heap (snd res) = (heap s)(it := (heap s it)\<lparr>amount := amount (heap s it) - n\<rparr>) \<and>
    (\<forall>j < length (inventory s). j \<noteq> nat idx \<longrightarrow>
        heap (snd res) (inventory s ! j) = heap s (inventory s ! j)) \<and>
    (if amount (heap s it) - n < 1
     then inventory (snd res)
            = take (nat idx) (inventory s) @ drop (Suc (nat idx)) (inventory s) \<and>
          it \<notin> set (inventory (snd res)) \<and>
          emitted (snd res) = emitted s @
            [ItemRemoved (actor s) idx (key (heap s it)) n (data (heap s it)),
             ItemRemovedCompletely (actor s) (key (heap s it)) (data (heap s it))]
     else inventory (snd res) = inventory s \<and>
          emitted (snd res) = emitted s @
            [ItemRemoved (actor s) idx (key (heap s it)) n (data (heap s it))])"
proof -
  have k: "nat idx < length (inventory s)" using lo hi by simp
  have sub: "js_sub (amount (heap s it)) n = amount (heap s it) - n"
    using exact unfolding it_def by (rule js_sub_exact)
  have others: "\<forall>j < length (inventory s). j \<noteq> nat idx \<longrightarrow> inventory s ! j \<noteq> it"
    using dist k by (auto simp: it_def nth_eq_iff_index_eq)
  have gone: "it \<notin> set (take (nat idx) (inventory s) @ drop (Suc (nat idx)) (inventory s))"
  proof -
    have "inventory s = take (nat idx) (inventory s) @ it # drop (Suc (nat idx)) (inventory s)"
      unfolding it_def using k by (rule id_take_nth_drop)
    with dist have "distinct (take (nat idx) (inventory s) @ it # drop (Suc (nat idx)) (inventory s))"
      by simp
    then show ?thesis by auto
  qed
  have res: "res =
      (if amount (heap s it) - n < 1
       then (True, s\<lparr>heap := (heap s)(it := (heap s it)\<lparr>amount := amount (heap s it) - n\<rparr>),
               inventory := take (nat idx) (inventory s) @ drop (Suc (nat idx)) (inventory s),
               emitted := emitted s @
                 [ItemRemoved (actor s) idx (key (heap s it)) n (data (heap s it)),
                  ItemRemovedCompletely (actor s) (key (heap s it)) (data (heap s it))]\<rparr>)
       else (True, s\<lparr>heap := (heap s)(it := (heap s it)\<lparr>amount := amount (heap s it) - n\<rparr>),
               emitted := emitted s @
                 [ItemRemoved (actor s) idx (key (heap s it)) n (data (heap s it))]\<rparr>))"
    unfolding res_def removeItem_accepts [OF lo hi pos] Let_def it_def [symmetric] sub
    by simp
  show ?thesis
  proof (cases "amount (heap s it) - n < 1")
    case True
    with res have "res = (True, s\<lparr>heap := (heap s)(it := (heap s it)\<lparr>amount := amount (heap s it) - n\<rparr>),
               inventory := take (nat idx) (inventory s) @ drop (Suc (nat idx)) (inventory s),
               emitted := emitted s @
                 [ItemRemoved (actor s) idx (key (heap s it)) n (data (heap s it)),
                  ItemRemovedCompletely (actor s) (key (heap s it)) (data (heap s it))]\<rparr>)"
      by simp
    with True others gone show ?thesis by simp
  next
    case False
    with res have "res = (True, s\<lparr>heap := (heap s)(it := (heap s it)\<lparr>amount := amount (heap s it) - n\<rparr>),
               emitted := emitted s @
                 [ItemRemoved (actor s) idx (key (heap s it)) n (data (heap s it))]\<rparr>)"
      by simp
    with False others show ?thesis by simp
  qed
qed

text \<open>
  The definitions that evaluate a \<open>removeItem\<close> call.
\<close>

lemmas eval_remove =
  removeItem_def at_index_def splice1_def Number_isInteger_def int_of_def Let_def

text \<open>
  C2 does not hold of every inventory and amount.  In \<open>shared_world\<close> one object of
  amount 2 stands at indices 0 and 1.  Removing 2 at index 0 splices index 0 out and leaves
  the same object, now of amount 0, in the inventory; removing 1 at index 0 changes the
  stack at index 1 from 2 to 1.  In \<open>vast_world\<close> the stack holds \<open>2^54\<close> units:
  removing 1 succeeds, emits \<^verbatim>\<open>itemRemoved\<close> with amount 1 and leaves \<open>2^54\<close>, the
  difference being rounded to the nearest double.
\<close>

theorem removeItem_shared_or_rounded:
  "fst (removeItem shared_world (JNumber 0) (JNumber 2)) = True \<and>
   inventory (snd (removeItem shared_world (JNumber 0) (JNumber 2))) = [0] \<and>
   amount (heap (snd (removeItem shared_world (JNumber 0) (JNumber 2))) 0) = 0 \<and>
   fst (removeItem shared_world (JNumber 0) (JNumber 1)) = True \<and>
   inventory shared_world ! 1 = 0 \<and>
   amount (heap shared_world 0) = 2 \<and>
   amount (heap (snd (removeItem shared_world (JNumber 0) (JNumber 1))) 0) = 1 \<and>
   fst (removeItem vast_world (JNumber 0) (JNumber 1)) = True \<and>
   amount (heap vast_world 0) = 18014398509481984 \<and>
   amount (heap (snd (removeItem vast_world (JNumber 0) (JNumber 1))) 0) = 18014398509481984 \<and>
   emitted (snd (removeItem vast_world (JNumber 0) (JNumber 1)))
     = [ItemRemoved 7 0 ''item_medkit'' 1 JUndefined]"
proof -
  have a: "fst (removeItem shared_world (JNumber 0) (JNumber 2)) = True"
    "inventory (snd (removeItem shared_world (JNumber 0) (JNumber 2))) = [0]"
    "amount (heap (snd (removeItem shared_world (JNumber 0) (JNumber 2))) 0) = 0"
    "fst (removeItem shared_world (JNumber 0) (JNumber 1)) = True"
    "inventory shared_world ! 1 = 0"
    "amount (heap shared_world 0) = 2"
    "amount (heap (snd (removeItem shared_world (JNumber 0) (JNumber 1))) 0) = 1"
    by (simp_all add: eval_remove shared_world_def)
  have b: "fst (removeItem vast_world (JNumber 0) (JNumber 1)) = True"
    "amount (heap vast_world 0) = 18014398509481984"
    "amount (heap (snd (removeItem vast_world (JNumber 0) (JNumber 1))) 0) = 18014398509481984"
    "emitted (snd (removeItem vast_world (JNumber 0) (JNumber 1)))
       = [ItemRemoved 7 0 ''item_medkit'' 1 JUndefined]"
    by (simp_all add: eval_remove vast_world_def js_sub_rounds)
  from a b show ?thesis by simp
qed

text \<open>
  Removing both medkits of \<open>example_world\<close> splices the stack out; removing one of
  them leaves it with one.
\<close>

theorem removeItem_success_witness:
  "(0::int) \<le> 1 \<and> (1::int) < int (length (inventory example_world)) \<and> (0::int) < 2 \<and>
   distinct (inventory example_world) \<and>
   \<bar>amount (heap example_world (inventory example_world ! nat 1)) - 2\<bar> \<le> 2 ^ 53 \<and>
   fst (removeItem example_world (JNumber 1) (JNumber 2)) = True \<and>
   inventory (snd (removeItem example_world (JNumber 1) (JNumber 2))) = [0] \<and>
   amount (heap (snd (removeItem example_world (JNumber 1) (JNumber 2))) 1) = 0 \<and>
   emitted (snd (removeItem example_world (JNumber 1) (JNumber 2)))
     = [ItemRemoved 7 1 ''item_medkit'' 2 JUndefined,
        ItemRemovedCompletely 7 ''item_medkit'' JUndefined] \<and>
   fst (removeItem example_world (JNumber 1) (JNumber 1)) = True \<and>
   inventory (snd (removeItem example_world (JNumber 1) (JNumber 1))) = [0, 1] \<and>
   amount (heap (snd (removeItem example_world (JNumber 1) (JNumber 1))) 1) = 1 \<and>
   emitted (snd (removeItem example_world (JNumber 1) (JNumber 1)))
     = [ItemRemoved 7 1 ''item_medkit'' 1 JUndefined]"
proof -
  have h: "(0::int) \<le> 1" "(1::int) < int (length (inventory example_world))"
    "distinct (inventory example_world)"
    "\<bar>amount (heap example_world (inventory example_world ! nat 1)) - 2\<bar> \<le> 2 ^ 53"
    "\<bar>amount (heap example_world (inventory example_world ! nat 1)) - 1\<bar> \<le> 2 ^ 53"
    by (simp_all add: example_world_def)
  have two: "(0::int) < 2" and one: "(0::int) < 1" by simp_all
  from removeItem_success [OF h(1,2) two h(3,4)] removeItem_success [OF h(1,2) one h(3,5)] h
  show ?thesis
    by (simp add: example_world_def)
qed


section \<open>Using items\<close>

lemma useItem_valid_index:
  assumes "0 \<le> idx" and "idx < int (length (inventory s))"
  shows "useItem r s (JNumber (of_int idx)) =
     (let it = inventory s ! nat idx;
          s1 = (case getItem r (key (heap s it)) of
                  Some itemDef \<Rightarrow>
                    (case onUse itemDef of
                       Some f \<Rightarrow> f s idx (key (heap s it)) (data (heap s it))
                     | None \<Rightarrow> s)
                | None \<Rightarrow> s)
      in (True, s1\<lparr>emitted := emitted s1 @
                     [ItemUsed (actor s) idx (key (heap s1 it)) (data (heap s1 it))]\<rparr>))"
  using assms
  by (simp add: useItem_def Let_def int_of_integer Number_isInteger_integer at_index_Some
      split: option.splits)

lemma useItem_invalid_index:
  assumes "\<not> (\<exists>i. 0 \<le> i \<and> i < int (length (inventory s)) \<and> itemIdx = JNumber (of_int i))"
  shows "useItem r s itemIdx = (False, s)"
proof (cases "Number_isInteger itemIdx")
  case False
  then show ?thesis by (simp add: useItem_def)
next
  case True
  then obtain i where i: "itemIdx = JNumber (of_int i)"
    by (auto simp: Number_isInteger_iff)
  with assms have "i < 0 \<or> int (length (inventory s)) \<le> i" by auto
  then have "at_index (inventory s) i = None" by (simp add: at_index_None_iff)
  then show ?thesis by (simp add: useItem_def i int_of_integer)
qed

lemma useItem_emits:
  assumes "0 \<le> idx" and "idx < int (length (inventory s))"
  shows "fst (useItem r s (JNumber (of_int idx))) = True"
    and "last (emitted (snd (useItem r s (JNumber (of_int idx))))) =
      ItemUsed (actor s) idx
        (key (heap (snd (useItem r s (JNumber (of_int idx)))) (inventory s ! nat idx)))
        (data (heap (snd (useItem r s (JNumber (of_int idx)))) (inventory s ! nat idx)))"
  unfolding useItem_valid_index [OF assms] by (simp_all add: Let_def)

lemma useItem_no_hook:
  assumes "0 \<le> idx" and "idx < int (length (inventory s))"
    and "no_hook r (key (heap s (inventory s ! nat idx)))"
  shows "useItem r s (JNumber (of_int idx)) =
     (True, s\<lparr>emitted := emitted s @
        [ItemUsed (actor s) idx (key (heap s (inventory s ! nat idx)))
           (data (heap s (inventory s ! nat idx)))]\<rparr>)"
  using assms(3) unfolding useItem_valid_index [OF assms(1,2)]
  by (simp add: no_hook_def Let_def split: option.splits)

text \<open>
  No hook runs for a key that \<open>getItem\<close> does not find; and \<open>getItem\<close> finds no key
  that is no own property of the dictionary, the key \<^verbatim>\<open>__proto__\<close> apart.
\<close>

lemma no_hook_unregistered: "getItem r k = None \<Longrightarrow> no_hook r k"
  by (simp add: no_hook_def)

lemma no_hook_no_own_property:
  "own r k = None \<Longrightarrow> k \<noteq> ''__proto__'' \<or> proto r = None \<Longrightarrow> no_hook r k"
  by (auto simp: no_hook_def getItem_def)

text \<open>
  C6.  At an integer index that holds a stack, \<open>useItem\<close> returns true and the last
  event is \<^verbatim>\<open>itemUsed\<close> with the actor, the index, and the key and data that the stack
  object holds when the event is emitted, which is after the hook has run.  If the
  definition that \<open>getItem\<close> finds for the key has no \<^verbatim>\<open>onUse\<close> function, or
  \<open>getItem\<close> finds none, that event is the only change: inventory, store and every
  stack's key, amount and data are as before.  For an argument that is no integer index of
  a stack, \<open>useItem\<close> returns false and changes nothing.
\<close>

theorem useItem_frame:
  "(0 \<le> idx \<and> idx < int (length (inventory s)) \<longrightarrow>
      fst (useItem r s (JNumber (of_int idx))) = True \<and>
      last (emitted (snd (useItem r s (JNumber (of_int idx))))) =
        ItemUsed (actor s) idx
          (key (heap (snd (useItem r s (JNumber (of_int idx)))) (inventory s ! nat idx)))
          (data (heap (snd (useItem r s (JNumber (of_int idx)))) (inventory s ! nat idx)))) \<and>
   (0 \<le> idx \<and> idx < int (length (inventory s)) \<and>
    no_hook r (key (heap s (inventory s ! nat idx))) \<longrightarrow>
      useItem r s (JNumber (of_int idx)) =
        (True, s\<lparr>emitted := emitted s @
           [ItemUsed (actor s) idx (key (heap s (inventory s ! nat idx)))
              (data (heap s (inventory s ! nat idx)))]\<rparr>)) \<and>
   (\<not> (\<exists>i. 0 \<le> i \<and> i < int (length (inventory s)) \<and> itemIdx = JNumber (of_int i)) \<longrightarrow>
      useItem r s itemIdx = (False, s))"
  using useItem_emits [of idx s r] useItem_no_hook [of idx s r]
    useItem_invalid_index [of s itemIdx r]
  by blast

text \<open>
  In \<open>example_world\<close>: the medkit at index 1 has a definition without hook; the rope
  at index 0, under \<open>worn_items\<close>, has a hook that writes its data, and the event
  carries the data written; 2, -1 and the string "1" are no index of a stack.
\<close>

theorem useItem_frame_witness:
  "(0::int) \<le> 1 \<and> (1::int) < int (length (inventory example_world)) \<and>
   no_hook example_items (key (heap example_world (inventory example_world ! nat 1))) \<and>
   useItem example_items example_world (JNumber 1) =
     (True, example_world\<lparr>emitted := [ItemUsed 7 1 ''item_medkit'' JUndefined]\<rparr>) \<and>
   fst (useItem worn_items example_world (JNumber 0)) = True \<and>
   data (heap example_world 0) = JUndefined \<and>
   last (emitted (snd (useItem worn_items example_world (JNumber 0))))
     = ItemUsed 7 0 ''item_rope'' (JString ''worn'') \<and>
   useItem example_items example_world (JNumber 2) = (False, example_world) \<and>
   useItem example_items example_world (JNumber (- 1)) = (False, example_world) \<and>
   useItem example_items example_world (JString ''1'') = (False, example_world)"
proof -
  have a: "(0::int) \<le> 1 \<and> (1::int) < int (length (inventory example_world))"
    "(0::int) \<le> 0 \<and> (0::int) < int (length (inventory example_world))"
    by (simp_all add: example_world_def)
  have b: "no_hook example_items (key (heap example_world (inventory example_world ! nat 1)))"
    by (simp add: no_hook_def getItem_def example_items_def example_world_def medkit_def)
  have n: "\<not> (\<exists>i. 0 \<le> i \<and> i < int (length (inventory example_world)) \<and>
                JNumber 2 = JNumber (rat_of_int i))"
    "\<not> (\<exists>i. 0 \<le> i \<and> i < int (length (inventory example_world)) \<and>
                JNumber (- 1) = JNumber (rat_of_int i))"
    "\<not> (\<exists>i. 0 \<le> i \<and> i < int (length (inventory example_world)) \<and>
                JString ''1'' = JNumber (rat_of_int i))"
    by (auto simp: example_world_def)
  note f1 = useItem_frame [of 1 example_world example_items]
  note f0 = useItem_frame [of 0 example_world worn_items]
  have c: "useItem example_items example_world (JNumber 1) =
     (True, example_world\<lparr>emitted := emitted example_world @
        [ItemUsed (actor example_world) 1
           (key (heap example_world (inventory example_world ! nat 1)))
           (data (heap example_world (inventory example_world ! nat 1)))]\<rparr>)"
    using f1 [of "JNumber 2"] a(1) b by simp
  then have c': "useItem example_items example_world (JNumber 1) =
     (True, example_world\<lparr>emitted := [ItemUsed 7 1 ''item_medkit'' JUndefined]\<rparr>)"
    by (simp add: example_world_def)
  have d: "useItem example_items example_world (JNumber 2) = (False, example_world)"
    "useItem example_items example_world (JNumber (- 1)) = (False, example_world)"
    "useItem example_items example_world (JString ''1'') = (False, example_world)"
    using f1 [of "JNumber 2"] f1 [of "JNumber (- 1)"] f1 [of "JString ''1''"] n by blast+
  have e: "fst (useItem worn_items example_world (JNumber 0)) = True"
    using f0 [of "JNumber 2"] a(2) by simp
  have g: "data (heap example_world 0) = JUndefined"
    "last (emitted (snd (useItem worn_items example_world (JNumber 0))))
       = ItemUsed 7 0 ''item_rope'' (JString ''worn'')"
    by (simp_all add: useItem_def Number_isInteger_def int_of_def at_index_def example_world_def
        getItem_def worn_items_def medkit_def wear_def)
  from a b c' d e g show ?thesis by simp
qed

text \<open>
  C9.  \<open>useItem\<close> validates the index only.  At an index that holds a stack whose key
  is not registered (no own property of the dictionary, so that \<open>hasItem\<close> is not
  true of it), \<open>useItem\<close> still returns true and emits \<^verbatim>\<open>itemUsed\<close> with the actor,
  the index and the stack's key and data.  No hook runs and nothing else changes, as for
  every key without hook; by \<open>no_hook_no_own_property\<close> that is every unregistered key,
  unless the key is \<^verbatim>\<open>__proto__\<close> and a definition was installed as the prototype of
  the dictionary.
\<close>

theorem useItem_unregistered_key:
  assumes "0 \<le> idx" and "idx < int (length (inventory s))"
    and "own r (key (heap s (inventory s ! nat idx))) = None"
  shows "fst (useItem r s (JNumber (of_int idx))) = True \<and>
    last (emitted (snd (useItem r s (JNumber (of_int idx))))) =
      ItemUsed (actor s) idx
        (key (heap (snd (useItem r s (JNumber (of_int idx)))) (inventory s ! nat idx)))
        (data (heap (snd (useItem r s (JNumber (of_int idx)))) (inventory s ! nat idx))) \<and>
    (no_hook r (key (heap s (inventory s ! nat idx))) \<longrightarrow>
      useItem r s (JNumber (of_int idx)) =
        (True, s\<lparr>emitted := emitted s @
           [ItemUsed (actor s) idx (key (heap s (inventory s ! nat idx)))
              (data (heap s (inventory s ! nat idx)))]\<rparr>))"
  using useItem_emits [OF assms(1,2), of r] useItem_no_hook [OF assms(1,2), of r]
  by blast

text \<open>
  The rope of \<open>example_world\<close> has no definition in \<open>example_items\<close>.  In
  \<open>ghost_world\<close> the stack's key is \<^verbatim>\<open>__proto__\<close>: \<open>hasItem\<close> is false of it,
  and the lookup finds the prototype, whose hook runs.
\<close>

theorem useItem_unregistered_key_witness:
  "(0::int) \<le> 0 \<and> (0::int) < int (length (inventory example_world)) \<and>
   own example_items (key (heap example_world (inventory example_world ! nat 0))) = None \<and>
   no_hook example_items (key (heap example_world (inventory example_world ! nat 0))) \<and>
   useItem example_items example_world (JNumber 0) =
     (True, example_world\<lparr>emitted := [ItemUsed 7 0 ''item_rope'' JUndefined]\<rparr>) \<and>
   (0::int) < int (length (inventory ghost_world)) \<and>
   own ghost_items (key (heap ghost_world (inventory ghost_world ! nat 0))) = None \<and>
   hasItem ghost_items ''__proto__'' = Inr False \<and>
   fst (useItem ghost_items ghost_world (JNumber 0)) = True \<and>
   last (emitted (snd (useItem ghost_items ghost_world (JNumber 0))))
     = ItemUsed 7 0 ''__proto__'' (JString ''worn'')"
proof -
  have a: "(0::int) \<le> 0" "(0::int) < int (length (inventory example_world))"
    "own example_items (key (heap example_world (inventory example_world ! nat 0))) = None"
    by (simp_all add: example_world_def example_items_def)
  have b: "no_hook example_items (key (heap example_world (inventory example_world ! nat 0)))"
    by (simp add: no_hook_def getItem_def example_world_def example_items_def)
  have c: "(0::int) < int (length (inventory ghost_world))"
    "own ghost_items (key (heap ghost_world (inventory ghost_world ! nat 0))) = None"
    "hasItem ghost_items ''__proto__'' = Inr False"
    by (simp_all add: ghost_world_def ghost_items_def hasItem_def)
  have d: "last (emitted (snd (useItem ghost_items ghost_world (JNumber 0))))
     = ItemUsed 7 0 ''__proto__'' (JString ''worn'')"
    by (simp add: useItem_def Number_isInteger_def int_of_def at_index_def ghost_world_def
        getItem_def ghost_items_def trap_def wear_def)
  from useItem_unregistered_key [OF a] useItem_unregistered_key [OF a(1) c(1,2)] a b c d
  show ?thesis
    by (simp add: example_world_def)
qed


section \<open>Replacing the inventory\<close>

text \<open>
  C8.  \<open>setInventory\<close> with an array succeeds and reports the previous array as the
  second payload of its \<^verbatim>\<open>inventoryReplaced\<close> event; a second \<open>setInventory\<close> with
  that array succeeds and restores the inventory: the same stack objects in the same
  order, each with the key, amount and data it had.
\<close>

theorem setInventory_roundtrip:
  "fst (setInventory s (AnArray newInv)) = True \<and>
   inventory (snd (setInventory s (AnArray newInv))) = newInv \<and>
   last (emitted (snd (setInventory s (AnArray newInv))))
     = InventoryReplaced (actor s) (inventory s) newInv \<and>
   fst (setInventory (snd (setInventory s (AnArray newInv)))
          (AnArray (oldInventory (last (emitted (snd (setInventory s (AnArray newInv)))))))) = True \<and>
   inventory (snd (setInventory (snd (setInventory s (AnArray newInv)))
          (AnArray (oldInventory (last (emitted (snd (setInventory s (AnArray newInv)))))))))
     = inventory s \<and>
   heap (snd (setInventory (snd (setInventory s (AnArray newInv)))
          (AnArray (oldInventory (last (emitted (snd (setInventory s (AnArray newInv)))))))))
     = heap s"
  by (simp add: setInventory_def)

text \<open>
  \<open>example_world\<close>, replaced by the array of its second stack and restored.
\<close>

theorem setInventory_roundtrip_witness:
  "inventory (snd (setInventory example_world (AnArray [1]))) = [1] \<and>
   inventory (snd (setInventory
      (snd (setInventory example_world (AnArray [1])))
      (AnArray (oldInventory (last (emitted (snd (setInventory example_world
         (AnArray [1]))))))))) = [0, 1]"
  using setInventory_roundtrip [of example_world "[1]"]
  by (simp add: example_world_def setInventory_def)


section \<open>Positive amounts\<close>






















end
